theory Spec2Isabelle
  imports Complex_Main "HOL-Library.Log_Nat"
begin

section \<open>Data model of the smart-config service\<close>

text \<open>
  Errors of the service. \<open>Error msg\<close> is the JavaScript \<^verbatim>\<open>new Error(msg)\<close>;
  \<open>TypeError p\<close> is the engine's error for reading property \<open>p\<close> of an
  absent (\<^verbatim>\<open>undefined\<close> or \<^verbatim>\<open>null\<close>) object; \<open>ConfigMissing key\<close>
  is what \<^verbatim>\<open>ConfigService.getOrThrow(key)\<close> throws for an absent key. Failures of the
  HTTP collaborator are values of the same type and are passed on as they are.
\<close>

datatype error = Error string | TypeError string | ConfigMissing string

text \<open>
  Modelled from the spec: the type \<^verbatim>\<open>ISmartNetwork.INetwork.IConfig.IOptions\<close> and the
  network table types are declared in the package \<^verbatim>\<open>@hsuite/smart-network-types\<close>,
  which is not part of the sources. The resolved network configuration is a triple
  \<open>nodes\<close>, \<open>utilities\<close>, \<open>fees\<close>; the entities are opaque (type parameters).
\<close>

record ('n, 'u, 'f) network_config =
  nodes :: "'n list"
  utilities :: "'u list"
  fees :: "'f"

text \<open>
  Modelled from the spec: the custom network table, keyed by \<open>testnet\<close>, \<open>local\<close> and
  \<open>mainnet\<close>. An entry that is \<^verbatim>\<open>undefined\<close> or \<^verbatim>\<open>null\<close> is \<open>None\<close>.
\<close>

record ('n, 'u, 'f) custom_network =
  testnet :: "('n, 'u, 'f) network_config option"
  local :: "('n, 'u, 'f) network_config option"
  mainnet :: "('n, 'u, 'f) network_config option"

text \<open>
  Modelled from the spec: the options object. \<open>environment\<close>, \<open>network\<close> and
  \<open>client_environment\<close> are the strings the code compares with string literals;
  \<open>customNetwork\<close> and \<open>smartRegistryUrl\<close> are optional (\<open>None\<close> when unset).
\<close>

record ('n, 'u, 'f) options =
  environment :: string
  network :: string
  client_environment :: string
  customNetwork :: "('n, 'u, 'f) custom_network option"
  smartRegistryUrl :: "string option"

section \<open>Resolution of the network configuration\<close>

text \<open>
  The member access \<^verbatim>\<open>obj.name\<close> of JavaScript: reading a property of an absent
  object throws a \<^verbatim>\<open>TypeError\<close>.
\<close>

definition member :: "'a option \<Rightarrow> ('a \<Rightarrow> 'b) \<Rightarrow> string \<Rightarrow> error + 'b" where
  "member obj sel name = (case obj of None \<Rightarrow> Inl (TypeError name) | Some x \<Rightarrow> Inr (sel x))"

text \<open>
  \<^verbatim>\<open>getNetworkConfig\<close> (smart-config.service.ts, lines 89 to 115): the nested switch
  on \<open>environment\<close> and \<open>network\<close>. The variable \<^verbatim>\<open>networkConfig\<close> starts as
  \<^verbatim>\<open>null\<close> and keeps that value when no case matches.
\<close>

definition getNetworkConfig ::
  "('n, 'u, 'f) options \<Rightarrow> error + ('n, 'u, 'f) network_config option" where
  "getNetworkConfig this =
     (if environment this = ''testnet'' then
        (if network this = ''public'' then Inr None
         else if network this = ''private'' then
           (if client_environment this = ''testnet''
            then member (customNetwork this) testnet ''testnet''
            else member (customNetwork this) local ''local'')
         else Inr None)
      else if environment this = ''mainnet'' then
        (if network this = ''private''
         then member (customNetwork this) mainnet ''mainnet''
         else Inr None)
      else Inr None)"

section \<open>JavaScript numbers\<close>

text \<open>
  A JavaScript number is an IEEE 754 double: a finite value with a sign and a
  magnitude, one of the two infinities, or NaN. \<open>Num negative m\<close> is the finite
  number of magnitude \<open>m\<close>, negative when the flag is set, so that \<open>Num False 0\<close> and
  \<open>Num True 0\<close> are the two zeros. The magnitude of a number is a non-negative real
  that \<open>round_magnitude\<close> leaves as it is.
\<close>

datatype number = Num bool real | Infinity bool | NaN

text \<open>
  The binary exponent of a positive real \<open>x\<close>: the integer \<open>e\<close> with
  \<open>2 powi e \<le> x < 2 powi (e + 1)\<close>.
\<close>

definition ilog2 :: "real \<Rightarrow> int" where
  "ilog2 x = (if 1 \<le> x then bitlen \<lfloor>x\<rfloor> - 1 else - bitlen (\<lceil>1 / x\<rceil> - 1))"

text \<open>Rounding to the nearest integer, a tie going to the even one.\<close>

definition round_half_even :: "real \<Rightarrow> int" where
  "round_half_even y =
     (if y - of_int \<lfloor>y\<rfloor> < 1 / 2 then \<lfloor>y\<rfloor>
      else if 1 / 2 < y - of_int \<lfloor>y\<rfloor> then \<lfloor>y\<rfloor> + 1
      else if even \<lfloor>y\<rfloor> then \<lfloor>y\<rfloor> else \<lfloor>y\<rfloor> + 1)"

text \<open>
  The rounding of a non-negative real to a double, to nearest with ties to even: 53
  significant bits, the spacing never below \<open>2 powi - 1074\<close> (the subnormal range), and
  \<open>None\<close> when the rounded magnitude reaches \<open>2 ^ 1024\<close> (overflow to infinity).
\<close>

definition round_magnitude :: "real \<Rightarrow> real option" where
  "round_magnitude m =
     (if m = 0 then Some 0
      else
        let q = max (ilog2 m - 52) (- 1074);
            y = of_int (round_half_even (m / 2 powi q)) * 2 powi q
        in if 2 ^ 1024 \<le> y then None else Some y)"

definition to_number :: "bool \<Rightarrow> real \<Rightarrow> number" where
  "to_number negative m =
     (case round_magnitude m of None \<Rightarrow> Infinity negative | Some y \<Rightarrow> Num negative y)"

text \<open>
  The operators \<^verbatim>\<open>*\<close> and \<^verbatim>\<open>/\<close> on numbers: the sign of the result is the
  exclusive or of the signs, the magnitude is the rounded product or quotient, and
  NaN comes from NaN, from zero times infinity, from zero by zero and from infinity by
  infinity.
\<close>

fun number_times :: "number \<Rightarrow> number \<Rightarrow> number" where
  "number_times (Num s a) (Num t b) = to_number (s \<noteq> t) (a * b)"
| "number_times (Num s a) (Infinity t) = (if a = 0 then NaN else Infinity (s \<noteq> t))"
| "number_times (Infinity s) (Num t b) = (if b = 0 then NaN else Infinity (s \<noteq> t))"
| "number_times (Infinity s) (Infinity t) = Infinity (s \<noteq> t)"
| "number_times NaN y = NaN"
| "number_times x NaN = NaN"

fun number_divide :: "number \<Rightarrow> number \<Rightarrow> number" where
  "number_divide (Num s a) (Num t b) =
     (if b = 0 then (if a = 0 then NaN else Infinity (s \<noteq> t))
      else to_number (s \<noteq> t) (a / b))"
| "number_divide (Num s a) (Infinity t) = Num (s \<noteq> t) 0"
| "number_divide (Infinity s) (Num t b) = Infinity (s \<noteq> t)"
| "number_divide (Infinity s) (Infinity t) = NaN"
| "number_divide NaN y = NaN"
| "number_divide x NaN = NaN"

text \<open>
  \<^verbatim>\<open>Math.ceil\<close>: the least integer not below the number. The ceiling of a negative
  number is the negated floor of its magnitude, and a zero result keeps the sign.
\<close>

fun Math_ceil :: "number \<Rightarrow> number" where
  "Math_ceil (Num s m) = (if s then Num True (of_int \<lfloor>m\<rfloor>) else Num False (of_int \<lceil>m\<rceil>))"
| "Math_ceil (Infinity s) = Infinity s"
| "Math_ceil NaN = NaN"

section \<open>The collaborators\<close>

text \<open>
  Modelled from the spec: the configuration store (\<^verbatim>\<open>ConfigService\<close> of
  \<^verbatim>\<open>@nestjs/config\<close>, not part of the sources) is a lookup by dotted path that
  returns the typed value or fails when the key is absent. \<^verbatim>\<open>getOrThrow<T>\<close> is generic
  in the type of the value, as the definition is polymorphic in \<open>'a\<close>.
\<close>

definition getOrThrow :: "(string \<rightharpoonup> 'a) \<Rightarrow> string \<Rightarrow> error + 'a" where
  "getOrThrow configService key =
     (case configService key of None \<Rightarrow> Inl (ConfigMissing key) | Some v \<Rightarrow> Inr v)"

text \<open>
  Modelled from the spec: the mirror node configuration (\<^verbatim>\<open>IHashgraph.IMirrorNode\<close> of
  \<^verbatim>\<open>@hsuite/hashgraph-types\<close>, not part of the sources), with the three fields the
  service fills in; \<^verbatim>\<open>null\<close> is \<open>None\<close>.
\<close>

record mirror_node =
  url :: "string option"
  apiKey :: "string option"
  grpc :: "string option"

text \<open>
  Modelled from the spec: the HTTP client (\<^verbatim>\<open>HttpService\<close> of \<^verbatim>\<open>@nestjs/axios\<close>,
  not part of the sources) answers a GET of a URL with a response that carries the
  decoded body in \<open>data\<close>, or fails. The world is the list of the URLs requested so
  far, oldest first; a GET appends its URL, whether it succeeds or fails.
\<close>

record 'a response =
  data :: "'a"

type_synonym world = "string list"

type_synonym 'a http_service = "string \<Rightarrow> error + 'a response"

definition httpService_get ::
  "'a http_service \<Rightarrow> string \<Rightarrow> world \<Rightarrow> (error + 'a response) \<times> world" where
  "httpService_get httpService u w = (httpService u, w @ [u])"

section \<open>The accessors that read the configuration store\<close>





text \<open>
  \<^verbatim>\<open>getMirrorNode\<close> (lines 196 to 207): the \<^verbatim>\<open>catch\<close> clause takes every error of
  the \<^verbatim>\<open>try\<close> block and returns the record of three nulls.
\<close>

definition getMirrorNode :: "(string \<rightharpoonup> mirror_node) \<Rightarrow> error + mirror_node" where
  "getMirrorNode configService =
     (case getOrThrow configService ''mirrorNode'' of
        Inr mirrorNode \<Rightarrow> Inr mirrorNode
      | Inl e \<Rightarrow> Inr \<lparr>url = None, apiKey = None, grpc = None\<rparr>)"

section \<open>The accessors with a remote fallback\<close>

text \<open>
  \<^verbatim>\<open>getNodes\<close> (lines 247 to 266). The promise settles once: with the local nodes,
  with the body of the response, or with an error. An exception of
  \<^verbatim>\<open>getNetworkConfig\<close> or of the awaited GET reaches the \<^verbatim>\<open>catch\<close> clause, which
  rejects with it. \<^verbatim>\<open>if(networkConfig)\<close> holds for an object and fails for
  \<^verbatim>\<open>null\<close> and \<^verbatim>\<open>undefined\<close>.
\<close>

definition getNodes ::
  "('n, 'u, 'f) options \<Rightarrow> 'n list http_service \<Rightarrow> world \<Rightarrow> (error + 'n list) \<times> world" where
  "getNodes this httpService w =
     (case getNetworkConfig this of
        Inl e \<Rightarrow> (Inl e, w)
      | Inr (Some networkConfig) \<Rightarrow> (Inr (nodes networkConfig), w)
      | Inr None \<Rightarrow>
          (case smartRegistryUrl this of
             None \<Rightarrow> (Inl (Error ''Base URL not set''), w)
           | Some u \<Rightarrow>
               if u \<noteq> ''local'' then
                 (case httpService_get httpService (u @ ''/network/nodes'') w of
                    (Inl e, w') \<Rightarrow> (Inl e, w')
                  | (Inr response, w') \<Rightarrow> (Inr (data response), w'))
               else (Inl (Error ''Base URL not set''), w)))"

text \<open>\<^verbatim>\<open>getUtilities\<close> (lines 284 to 303).\<close>

definition getUtilities ::
  "('n, 'u, 'f) options \<Rightarrow> 'u list http_service \<Rightarrow> world \<Rightarrow> (error + 'u list) \<times> world" where
  "getUtilities this httpService w =
     (case getNetworkConfig this of
        Inl e \<Rightarrow> (Inl e, w)
      | Inr (Some networkConfig) \<Rightarrow> (Inr (utilities networkConfig), w)
      | Inr None \<Rightarrow>
          (case smartRegistryUrl this of
             None \<Rightarrow> (Inl (Error ''Base URL not set''), w)
           | Some u \<Rightarrow>
               if u \<noteq> ''local'' then
                 (case httpService_get httpService (u @ ''/network/utilities'') w of
                    (Inl e, w') \<Rightarrow> (Inl e, w')
                  | (Inr response, w') \<Rightarrow> (Inr (data response), w'))
               else (Inl (Error ''Base URL not set''), w)))"

text \<open>\<^verbatim>\<open>getFees\<close> (lines 326 to 345).\<close>

definition getFees ::
  "('n, 'u, 'f) options \<Rightarrow> 'f http_service \<Rightarrow> world \<Rightarrow> (error + 'f) \<times> world" where
  "getFees this httpService w =
     (case getNetworkConfig this of
        Inl e \<Rightarrow> (Inl e, w)
      | Inr (Some networkConfig) \<Rightarrow> (Inr (fees networkConfig), w)
      | Inr None \<Rightarrow>
          (case smartRegistryUrl this of
             None \<Rightarrow> (Inl (Error ''Base URL not set''), w)
           | Some u \<Rightarrow>
               if u \<noteq> ''local'' then
                 (case httpService_get httpService (u @ ''/network/fees'') w of
                    (Inl e, w') \<Rightarrow> (Inl e, w')
                  | (Inr response, w') \<Rightarrow> (Inr (data response), w'))
               else (Inl (Error ''Base URL not set''), w)))"

text \<open>
  \<^verbatim>\<open>getThreshold\<close> (lines 224 to 229): the threshold percentage is read first, then
  the nodes are resolved, then \<^verbatim>\<open>Math.ceil((nodes.length * thresholdValue) / 100)\<close>
  is computed on numbers. The length of an array is an integer below \<open>2 ^ 32\<close>, which
  is a number as it is.
\<close>

definition getThreshold ::
  "(string \<rightharpoonup> number) \<Rightarrow> ('n, 'u, 'f) options \<Rightarrow> 'n list http_service \<Rightarrow> world
     \<Rightarrow> (error + number) \<times> world" where
  "getThreshold configService this httpService w =
     (case getOrThrow configService ''clusterConfig.threshold'' of
        Inl e \<Rightarrow> (Inl e, w)
      | Inr thresholdValue \<Rightarrow>
          (case getNodes this httpService w of
             (Inl e, w') \<Rightarrow> (Inl e, w')
           | (Inr nodes_list, w') \<Rightarrow>
               (Inr (Math_ceil
                       (number_divide
                          (number_times (Num False (of_nat (length nodes_list))) thresholdValue)
                          (Num False 100))),
                w')))"

section \<open>The service object and its calls\<close>

text \<open>
  The service object holds the three fields that the constructor receives. The
  configuration store is read at five types and the HTTP client at three, one per type
  argument of \<^verbatim>\<open>getOrThrow<T>\<close> and of \<^verbatim>\<open>get\<close>.
\<close>

record ('i, 'o) config_service =
  string_at :: "string \<rightharpoonup> string"
  number_at :: "string \<rightharpoonup> number"
  issuer_at :: "string \<rightharpoonup> 'i"
  operator_at :: "string \<rightharpoonup> 'o"
  mirror_node_at :: "string \<rightharpoonup> mirror_node"

record ('n, 'u, 'f) http_client =
  nodes_from :: "'n list http_service"
  utilities_from :: "'u list http_service"
  fees_from :: "'f http_service"

record ('n, 'u, 'f, 'i, 'o) service =
  smartConfigOptions :: "('n, 'u, 'f) options"
  config_store :: "('i, 'o) config_service"
  http_service :: "('n, 'u, 'f) http_client"





section \<open>Sample configurations\<close>

definition sample_table :: "(nat, string, nat) custom_network" where
  "sample_table =
     \<lparr>testnet = Some \<lparr>nodes = [1, 2], utilities = [''ipfs''], fees = 10\<rparr>,
      local = Some \<lparr>nodes = [3], utilities = [], fees = 20\<rparr>,
      mainnet = Some \<lparr>nodes = [4, 5, 6], utilities = [''ipfs'', ''mirror''], fees = 30\<rparr>\<rparr>"

definition sample_options ::
  "string \<Rightarrow> string \<Rightarrow> string \<Rightarrow> (nat, string, nat) custom_network option \<Rightarrow> string option
     \<Rightarrow> (nat, string, nat) options" where
  "sample_options e n c t r =
     \<lparr>environment = e, network = n, client_environment = c, customNetwork = t,
      smartRegistryUrl = r\<rparr>"

definition sample_registry :: "string \<Rightarrow> 'a \<Rightarrow> 'a http_service" where
  "sample_registry good body u = (if u = good then Inr \<lparr>data = body\<rparr> else Inl (Error ''Not Found''))"


section \<open>Properties\<close>

text \<open>
  C1. The decision table of \<^verbatim>\<open>getNetworkConfig\<close>, for every value of the options:
  under testnet and public the result is absent whatever the client environment is;
  under testnet, private and client environment testnet it is what the access
  \<^verbatim>\<open>customNetwork.testnet\<close> gives, the \<open>testnet\<close> entry of the table when the table is
  present; under mainnet and private it is what \<^verbatim>\<open>customNetwork.mainnet\<close> gives, the
  \<open>mainnet\<close> entry of a present table; under mainnet and public it is absent.
\<close>

theorem getNetworkConfig_decision_table:
  "(environment this = ''testnet'' \<and> network this = ''public''
      \<longrightarrow> getNetworkConfig this = Inr None) \<and>
   (environment this = ''testnet'' \<and> network this = ''private'' \<and>
    client_environment this = ''testnet''
      \<longrightarrow> getNetworkConfig this = member (customNetwork this) testnet ''testnet'' \<and>
          (\<forall>cn. customNetwork this = Some cn \<longrightarrow> getNetworkConfig this = Inr (testnet cn))) \<and>
   (environment this = ''mainnet'' \<and> network this = ''private''
      \<longrightarrow> getNetworkConfig this = member (customNetwork this) mainnet ''mainnet'' \<and>
          (\<forall>cn. customNetwork this = Some cn \<longrightarrow> getNetworkConfig this = Inr (mainnet cn))) \<and>
   (environment this = ''mainnet'' \<and> network this = ''public''
      \<longrightarrow> getNetworkConfig this = Inr None)"
  by (simp add: getNetworkConfig_def member_def)

theorem getNetworkConfig_decision_table_witness:
  "getNetworkConfig (sample_options ''testnet'' ''public'' ''mainnet'' None None) = Inr None \<and>
   getNetworkConfig (sample_options ''testnet'' ''private'' ''testnet'' (Some sample_table) None)
     = Inr (Some \<lparr>nodes = [1, 2], utilities = [''ipfs''], fees = 10\<rparr>) \<and>
   getNetworkConfig (sample_options ''mainnet'' ''private'' ''local'' (Some sample_table) None)
     = Inr (Some \<lparr>nodes = [4, 5, 6], utilities = [''ipfs'', ''mirror''], fees = 30\<rparr>) \<and>
   getNetworkConfig (sample_options ''mainnet'' ''public'' ''testnet'' (Some sample_table) None)
     = Inr None"
  using getNetworkConfig_decision_table
          [of "sample_options ''testnet'' ''public'' ''mainnet'' None None"]
        getNetworkConfig_decision_table
          [of "sample_options ''testnet'' ''private'' ''testnet'' (Some sample_table) None"]
        getNetworkConfig_decision_table
          [of "sample_options ''mainnet'' ''private'' ''local'' (Some sample_table) None"]
        getNetworkConfig_decision_table
          [of "sample_options ''mainnet'' ''public'' ''testnet'' (Some sample_table) None"]
  by (simp add: sample_options_def sample_table_def member_def)

text \<open>
  C2. Under testnet and private, a client environment of local and one of mainnet give
  the same result, what the access \<^verbatim>\<open>customNetwork.local\<close> gives: the \<open>local\<close> entry
  of the custom network table when the table is present.
\<close>

theorem getNetworkConfig_local_collapse:
  assumes "environment this = ''testnet''" and "network this = ''private''"
    and "client_environment this = ''local'' \<or> client_environment this = ''mainnet''"
  shows "getNetworkConfig this = member (customNetwork this) local ''local'' \<and>
         (\<forall>cn. customNetwork this = Some cn \<longrightarrow> getNetworkConfig this = Inr (local cn))"
  using assms by (auto simp add: getNetworkConfig_def member_def)

theorem getNetworkConfig_local_collapse_witness:
  "getNetworkConfig (sample_options ''testnet'' ''private'' ''local'' (Some sample_table) None)
     = Inr (Some \<lparr>nodes = [3], utilities = [], fees = 20\<rparr>) \<and>
   getNetworkConfig (sample_options ''testnet'' ''private'' ''mainnet'' (Some sample_table) None)
     = Inr (Some \<lparr>nodes = [3], utilities = [], fees = 20\<rparr>)"
  using getNetworkConfig_local_collapse
          [of "sample_options ''testnet'' ''private'' ''local'' (Some sample_table) None"]
        getNetworkConfig_local_collapse
          [of "sample_options ''testnet'' ''private'' ''mainnet'' (Some sample_table) None"]
  by (simp add: sample_options_def sample_table_def member_def)

text \<open>
  C3. When the resolved network configuration is absent and the registry URL is unset or
  is the string \<open>local\<close>, each of \<^verbatim>\<open>getNodes\<close>, \<^verbatim>\<open>getUtilities\<close> and
  \<^verbatim>\<open>getFees\<close> rejects with the error of message \<open>Base URL not set\<close>, and the
  world is unchanged: no request has been issued.
\<close>

theorem base_url_not_set:
  assumes "getNetworkConfig this = Inr None"
    and "smartRegistryUrl this = None \<or> smartRegistryUrl this = Some ''local''"
  shows "getNodes this httpN w = (Inl (Error ''Base URL not set''), w) \<and>
         getUtilities this httpU w = (Inl (Error ''Base URL not set''), w) \<and>
         getFees this httpF w = (Inl (Error ''Base URL not set''), w)"
  using assms by (auto simp add: getNodes_def getUtilities_def getFees_def)

theorem base_url_not_set_witness:
  "getNodes (sample_options ''testnet'' ''public'' ''testnet'' None None)
      (sample_registry ''x/network/nodes'' [7]) [] = (Inl (Error ''Base URL not set''), []) \<and>
   getUtilities (sample_options ''testnet'' ''public'' ''testnet'' None None)
      (sample_registry ''x/network/utilities'' [''u'']) [] = (Inl (Error ''Base URL not set''), []) \<and>
   getFees (sample_options ''testnet'' ''public'' ''testnet'' None None)
      (sample_registry ''x/network/fees'' 1) [] = (Inl (Error ''Base URL not set''), []) \<and>
   getNodes (sample_options ''mainnet'' ''public'' ''testnet'' (Some sample_table) (Some ''local''))
      (sample_registry ''local/network/nodes'' [7]) [] = (Inl (Error ''Base URL not set''), [])"
  using base_url_not_set
          [of "sample_options ''testnet'' ''public'' ''testnet'' None None"
              "sample_registry ''x/network/nodes'' [7]" "[]"
              "sample_registry ''x/network/utilities'' [''u'']"
              "sample_registry ''x/network/fees'' 1"]
        base_url_not_set
          [of "sample_options ''mainnet'' ''public'' ''testnet'' (Some sample_table) (Some ''local'')"
              "sample_registry ''local/network/nodes'' [7]" "[]"
              "sample_registry ''local/network/utilities'' [''u'']"
              "sample_registry ''local/network/fees'' 1"]
  by (simp add: sample_options_def getNetworkConfig_def)

text \<open>
  C4. When the resolved network configuration is absent and the registry URL is set and
  is not \<open>local\<close>, each accessor issues exactly one GET, to the registry URL followed
  by \<open>/network/nodes\<close>, \<open>/network/utilities\<close> or \<open>/network/fees\<close>. A response
  resolves the call with its body unchanged; a failure of the GET rejects the call with
  the same error, and no second request is made.
\<close>

theorem remote_fetch:
  assumes "getNetworkConfig this = Inr None"
    and "smartRegistryUrl this = Some u" and "u \<noteq> ''local''"
  shows "getNodes this httpN w =
           ((case httpN (u @ ''/network/nodes'') of Inl e \<Rightarrow> Inl e | Inr r \<Rightarrow> Inr (data r)),
            w @ [u @ ''/network/nodes'']) \<and>
         getUtilities this httpU w =
           ((case httpU (u @ ''/network/utilities'') of Inl e \<Rightarrow> Inl e | Inr r \<Rightarrow> Inr (data r)),
            w @ [u @ ''/network/utilities'']) \<and>
         getFees this httpF w =
           ((case httpF (u @ ''/network/fees'') of Inl e \<Rightarrow> Inl e | Inr r \<Rightarrow> Inr (data r)),
            w @ [u @ ''/network/fees''])"
  using assms
  by (simp add: getNodes_def getUtilities_def getFees_def httpService_get_def split: sum.splits)

theorem remote_fetch_witness:
  "getNodes (sample_options ''testnet'' ''public'' ''testnet'' None (Some ''http://r''))
      (sample_registry ''http://r/network/nodes'' [7, 8]) []
     = (Inr [7, 8], [''http://r/network/nodes'']) \<and>
   getUtilities (sample_options ''testnet'' ''public'' ''testnet'' None (Some ''http://r''))
      (sample_registry ''http://r/network/utilities'' [''u'']) []
     = (Inr [''u''], [''http://r/network/utilities'']) \<and>
   getFees (sample_options ''testnet'' ''public'' ''testnet'' None (Some ''http://r''))
      (sample_registry ''http://r/elsewhere'' 1) []
     = (Inl (Error ''Not Found''), [''http://r/network/fees''])"
  using remote_fetch
          [of "sample_options ''testnet'' ''public'' ''testnet'' None (Some ''http://r'')"
              "''http://r''"
              "sample_registry ''http://r/network/nodes'' [7, 8]" "[]"
              "sample_registry ''http://r/network/utilities'' [''u'']"
              "sample_registry ''http://r/elsewhere'' 1"]
  by (simp add: sample_options_def getNetworkConfig_def sample_registry_def)

subsection \<open>The arithmetic of numbers\<close>

text \<open>The binary exponent brackets its argument, and is the only integer that does.\<close>

lemma ilog2_bounds:
  assumes "0 < x"
  shows "2 powi (ilog2 x) \<le> x \<and> x < 2 powi (ilog2 x + 1)"
proof (cases "1 \<le> x")
  case True
  then have pos: "0 < \<lfloor>x\<rfloor>" by linarith
  let ?b = "bitlen \<lfloor>x\<rfloor>"
  from bitlen_bounds [OF pos] have lo: "2 ^ nat (?b - 1) \<le> \<lfloor>x\<rfloor>" and hi: "\<lfloor>x\<rfloor> < 2 ^ nat ?b"
    by simp_all
  have b1: "1 \<le> ?b" using pos by (simp add: bitlen_alt_def)
  have "real_of_int (2 ^ nat (?b - 1)) \<le> real_of_int \<lfloor>x\<rfloor>" using lo by (simp only: of_int_le_iff)
  then have l: "2 ^ nat (?b - 1) \<le> x" by (simp add: le_floor_iff)
  have "\<lfloor>x\<rfloor> + 1 \<le> 2 ^ nat ?b" using hi by simp
  then have "real_of_int (\<lfloor>x\<rfloor> + 1) \<le> real_of_int (2 ^ nat ?b)" by (simp only: of_int_le_iff)
  then have h: "x < 2 ^ nat ?b" by (simp) linarith
  have e: "ilog2 x = ?b - 1" using True by (simp add: ilog2_def)
  show ?thesis using l h b1 unfolding e by (simp add: power_int_def)
next
  case False
  with assms have x1: "x < 1" by simp
  then have "1 < 1 / x" using assms by simp
  then have c2: "2 \<le> \<lceil>1 / x\<rceil>" by linarith
  let ?a = "\<lceil>1 / x\<rceil> - 1"
  let ?b = "bitlen ?a"
  have pos: "0 < ?a" using c2 by simp
  from bitlen_bounds [OF pos] have lo: "2 ^ nat (?b - 1) \<le> ?a" and hi: "?a < 2 ^ nat ?b"
    by simp_all
  have b1: "1 \<le> ?b" using pos by (simp add: bitlen_alt_def)
  have "real_of_int (2 ^ nat (?b - 1)) \<le> real_of_int ?a" using lo by (simp only: of_int_le_iff)
  then have "2 ^ nat (?b - 1) \<le> real_of_int \<lceil>1 / x\<rceil> - 1" by simp
  then have l: "2 ^ nat (?b - 1) < 1 / x" by linarith
  have "\<lceil>1 / x\<rceil> \<le> 2 ^ nat ?b" using hi by simp
  then have "real_of_int \<lceil>1 / x\<rceil> \<le> real_of_int (2 ^ nat ?b)" by (simp only: of_int_le_iff)
  then have "real_of_int \<lceil>1 / x\<rceil> \<le> 2 ^ nat ?b" by simp
  moreover have "1 / x \<le> real_of_int \<lceil>1 / x\<rceil>" by (rule le_of_int_ceiling)
  ultimately have h: "1 / x \<le> 2 ^ nat ?b" by (rule order_trans [rotated])
  have e: "ilog2 x = - ?b" using False by (simp add: ilog2_def)
  have p: "(0::real) < 2 ^ nat ?b" and p': "(0::real) < 2 ^ nat (?b - 1)" by simp_all
  from h assms p have A: "inverse (2 ^ nat ?b) \<le> x"
    by (simp add: field_simps)
  from l assms p' have B: "x < inverse (2 ^ nat (?b - 1))"
    by (simp add: field_simps)
  have C: "(2::real) powi (- ?b) = inverse (2 ^ nat ?b)"
    using b1 by (simp add: power_int_minus power_int_nonneg_exp)
  have "(2::real) powi (- (?b - 1)) = inverse (2 ^ nat (?b - 1))"
    using b1 by (simp only: power_int_minus) (simp add: power_int_nonneg_exp)
  then have D: "(2::real) powi (- ?b + 1) = inverse (2 ^ nat (?b - 1))"
    by (simp add: algebra_simps)
  show ?thesis unfolding e C D using A B by simp
qed

lemma ilog2_unique:
  assumes "0 < x" and "2 powi e \<le> x" and "x < 2 powi (e + 1)"
  shows "ilog2 x = e"
proof -
  from ilog2_bounds [OF assms(1)] have lo: "2 powi (ilog2 x) \<le> x" and hi: "x < 2 powi (ilog2 x + 1)"
    by simp_all
  have a: "e < ilog2 x + 1"
  proof (rule ccontr)
    assume "\<not> e < ilog2 x + 1"
    then have "ilog2 x + 1 \<le> e" by simp
    then have "(2::real) powi (ilog2 x + 1) \<le> 2 powi e" by (intro power_int_increasing) auto
    with assms(2) hi show False by linarith
  qed
  have b: "ilog2 x < e + 1"
  proof (rule ccontr)
    assume "\<not> ilog2 x < e + 1"
    then have "e + 1 \<le> ilog2 x" by simp
    then have "(2::real) powi (e + 1) \<le> 2 powi (ilog2 x)" by (intro power_int_increasing) auto
    with assms(3) lo show False by linarith
  qed
  from a b show ?thesis by simp
qed

text \<open>Rounding to an integer: exact on integers, within a half, and monotone.\<close>

lemma round_half_even_of_int: "round_half_even (of_int n) = n"
  by (simp add: round_half_even_def)

lemma round_half_even_near: "\<bar>of_int (round_half_even y) - y\<bar> \<le> 1 / 2"
  unfolding round_half_even_def by (auto split: if_splits)

lemma round_half_even_le:
  assumes "y \<le> of_int n"
  shows "round_half_even y \<le> n"
proof -
  have fl: "\<lfloor>y\<rfloor> \<le> n" using assms by (simp add: floor_le_iff)
  show ?thesis
  proof (cases "\<lfloor>y\<rfloor> = n")
    case True
    then have "y = of_int n" using assms by linarith
    then show ?thesis by (simp add: round_half_even_of_int)
  next
    case False
    with fl have "\<lfloor>y\<rfloor> + 1 \<le> n" by simp
    then show ?thesis unfolding round_half_even_def by (auto split: if_splits)
  qed
qed

lemma round_half_even_nonneg: "0 \<le> y \<Longrightarrow> 0 \<le> round_half_even y"
  unfolding round_half_even_def by (auto split: if_splits)

lemma powi2_less_cancel:
  assumes "(2::real) powi a < 2 powi b"
  shows "a < b"
proof (rule ccontr)
  assume "\<not> a < b"
  then have "b \<le> a" by simp
  then have "(2::real) powi b \<le> 2 powi a" by (intro power_int_increasing) auto
  with assms show False by simp
qed

lemma powi2_neg: "q \<le> 0 \<Longrightarrow> (2::real) powi q = 1 / 2 ^ nat (- q)"
  using power_int_minus_divide [of "2::real" "- q"] by (simp add: power_int_nonneg_exp)

text \<open>Integers below \<open>2 ^ 53\<close> are doubles.\<close>

lemma round_magnitude_int:
  assumes "0 \<le> k" and "k < 2 ^ 53"
  shows "round_magnitude (of_int k) = Some (of_int k)"
proof (cases "k = 0")
  case True
  then show ?thesis by (simp add: round_magnitude_def)
next
  case False
  with assms have k1: "1 \<le> k" by simp
  then have pos: "0 < real_of_int k" by simp
  let ?e = "ilog2 (of_int k)"
  from ilog2_bounds [OF pos] have lo: "2 powi ?e \<le> real_of_int k" and hi: "real_of_int k < 2 powi (?e + 1)"
    by simp_all
  have "real_of_int k < real_of_int (2 ^ 53)" using assms(2) by (simp only: of_int_less_iff)
  then have kp: "real_of_int k < 2 powi 53" by simp
  with lo have "(2::real) powi ?e < 2 powi 53" by linarith
  then have e52: "?e \<le> 52" using powi2_less_cancel [of ?e 53] by simp
  have "(2::real) powi 0 \<le> real_of_int k" using k1 by simp
  with hi have "(2::real) powi 0 < 2 powi (?e + 1)" by linarith
  then have e0: "0 \<le> ?e" using powi2_less_cancel [of 0 "?e + 1"] by simp
  define q where "q = ?e - 52"
  have q0: "q \<le> 0" using e52 by (simp add: q_def)
  have qmax: "max (?e - 52) (- 1074) = q" using e0 by (simp add: q_def)
  define j where "j = nat (- q)"
  have pq: "(2::real) powi q = 1 / 2 ^ j" unfolding j_def by (rule powi2_neg [OF q0])
  have scaled: "real_of_int k / 2 powi q = of_int (k * 2 ^ j)" by (simp add: pq)
  have r: "round_half_even (real_of_int k / 2 powi q) = k * 2 ^ j"
    unfolding scaled by (rule round_half_even_of_int)
  have y: "of_int (round_half_even (real_of_int k / 2 powi q)) * 2 powi q = real_of_int k"
    unfolding r by (simp add: pq)
  have small: "\<not> (2::real) ^ 1024 \<le> real_of_int k"
  proof -
    have "real_of_int k < 2 ^ 53" using kp by simp
    also have "(2::real) ^ 53 \<le> 2 ^ 1024" by (rule power_increasing) simp_all
    finally show ?thesis by simp
  qed
  show ?thesis
    using pos small by (simp add: round_magnitude_def qmax Let_def y)
qed

text \<open>The double nearest to a hundredth of an integer below \<open>2 ^ 53\<close> has its ceiling.\<close>

lemma round_magnitude_hundredth:
  assumes "0 < k" and "k < 2 ^ 53"
  shows "\<exists>y. round_magnitude (of_int k / 100) = Some y \<and> 0 \<le> y \<and>
           \<lceil>y\<rceil> = \<lceil>real_of_int k / 100\<rceil>"
proof -
  define x where "x = real_of_int k / 100"
  have k1: "1 \<le> real_of_int k" using assms(1) by simp
  have pos: "0 < x" using assms(1) by (simp add: x_def)
  have "real_of_int k < real_of_int (2 ^ 53)" using assms(2) by (simp only: of_int_less_iff)
  then have k53: "real_of_int k < 2 ^ 53" by simp
  define e where "e = ilog2 x"
  from ilog2_bounds [OF pos] have lo: "2 powi e \<le> x" and hi: "x < 2 powi (e + 1)"
    by (simp_all add: e_def)
  have "x < 2 powi 47" using k53 by (simp add: x_def)
  with lo have "(2::real) powi e < 2 powi 47" by linarith
  then have e46: "e \<le> 46" using powi2_less_cancel [of e 47] by simp
  have "(2::real) powi (- 7) \<le> x" using k1 by (simp add: x_def)
  with hi have "(2::real) powi (- 7) < 2 powi (e + 1)" by linarith
  then have e7: "- 7 \<le> e" using powi2_less_cancel [of "- 7" "e + 1"] by simp
  define q where "q = e - 52"
  have q0: "q \<le> 0" using e46 by (simp add: q_def)
  have qmax: "max (ilog2 x - 52) (- 1074) = q" using e7 by (simp add: q_def e_def)
  define j where "j = nat (- q)"
  define P :: real where "P = 2 ^ j"
  have Ppos: "0 < P" by (simp add: P_def)
  have pq: "(2::real) powi q = 1 / P" unfolding j_def P_def by (rule powi2_neg [OF q0])
  define r where "r = round_half_even (x / 2 powi q)"
  define y where "y = real_of_int r * 2 powi q"
  have rP: "r = round_half_even (x * P)" by (simp add: r_def pq)
  have yP: "y = real_of_int r / P" by (simp add: y_def pq)
  have near: "\<bar>real_of_int r - x * P\<bar> \<le> 1 / 2" unfolding rP by (rule round_half_even_near)
  have ulp: "1 / (2 * P) < 1 / 100"
  proof -
    have "(2::real) powi e = 2 powi (q + 52)" by (simp add: q_def)
    also have "\<dots> = 2 powi q * 2 powi 52" by (rule power_int_add) simp
    finally have "(2::real) powi e = 2 ^ 52 / P" by (simp add: pq)
    with lo have "2 ^ 52 / P \<le> x" by simp
    also have "x < 2 ^ 53 / 100" using k53 by (simp add: x_def)
    finally have "2 ^ 52 / P < 2 ^ 53 / (100::real)" .
    then have "1 / P < 2 / 100" by simp
    then show ?thesis by simp
  qed
  have diff: "\<bar>y - x\<bar> \<le> 1 / (2 * P)"
  proof -
    have "y - x = (real_of_int r - x * P) / P" using Ppos by (simp add: yP field_simps)
    then have "\<bar>y - x\<bar> = \<bar>real_of_int r - x * P\<bar> / P" using Ppos by simp
    also have "\<dots> \<le> (1 / 2) / P" using near Ppos by (intro divide_right_mono) simp_all
    finally show ?thesis by simp
  qed
  define c where "c = \<lceil>x\<rceil>"
  have xc: "x \<le> real_of_int c" by (simp add: c_def)
  have "x * P \<le> real_of_int c * P" using xc Ppos by simp
  also have "real_of_int c * P = real_of_int (c * 2 ^ j)" by (simp add: P_def)
  finally have "r \<le> c * 2 ^ j" unfolding rP by (rule round_half_even_le)
  then have "real_of_int r \<le> real_of_int (c * 2 ^ j)" by (simp only: of_int_le_iff)
  then have "real_of_int r \<le> real_of_int c * P" by (simp add: P_def)
  then have yc: "y \<le> real_of_int c" using Ppos by (simp add: yP field_simps)
  have "real_of_int c - 1 < x" unfolding c_def by linarith
  then have "real_of_int (100 * (c - 1)) < real_of_int k" by (simp add: x_def)
  then have "100 * (c - 1) < k" by (simp only: of_int_less_iff)
  then have "100 * (c - 1) + 1 \<le> k" by simp
  then have "real_of_int (100 * (c - 1) + 1) \<le> real_of_int k" by (simp only: of_int_le_iff)
  then have gap: "real_of_int c - 1 + 1 / 100 \<le> x" by (simp add: x_def)
  have "x - 1 / (2 * P) \<le> y" using diff by linarith
  with ulp gap have cy: "real_of_int c - 1 < y" by linarith
  have ceil: "\<lceil>y\<rceil> = c" using cy yc by (intro ceiling_unique) simp_all
  have c1: "1 \<le> c" using pos unfolding c_def by linarith
  have y0: "0 \<le> y" using cy c1 by simp
  have "x \<le> real_of_int k" using k1 by (simp add: x_def)
  then have "c \<le> k" unfolding c_def by (simp add: ceiling_le_iff)
  then have "real_of_int c \<le> real_of_int k" by (simp only: of_int_le_iff)
  with yc k53 have "y < 2 ^ 53" by linarith
  also have "(2::real) ^ 53 \<le> 2 ^ 1024" by (rule power_increasing) simp_all
  finally have small: "\<not> 2 ^ 1024 \<le> y" by simp
  have "round_magnitude x = Some y"
    using pos small by (simp add: round_magnitude_def qmax Let_def y_def r_def)
  with y0 ceil show ?thesis unfolding x_def c_def by blast
qed

text \<open>The double nearest to a given magnitude, from its exponent and its rounded significand.\<close>

lemma round_magnitude_at:
  assumes "0 < m" and "2 powi e \<le> m" and "m < 2 powi (e + 1)"
    and "max (e - 52) (- 1074) = q" and "round_half_even (m / 2 powi q) = r"
    and "real_of_int r * 2 powi q = y" and "y < 2 ^ 1024"
  shows "round_magnitude m = Some y"
proof -
  have "ilog2 m = e" using assms(1-3) by (rule ilog2_unique)
  with assms show ?thesis by (simp add: round_magnitude_def Let_def)
qed

text \<open>The threshold arithmetic on a non-negative integer percentage.\<close>

lemma threshold_int:
  assumes "0 \<le> p" and "int n * p < 2 ^ 53"
  shows "Math_ceil (number_divide (number_times (Num False (of_nat n)) (Num False (of_int p)))
           (Num False 100)) = Num False (of_int \<lceil>real_of_int (int n * p) / 100\<rceil>)"
proof -
  define k where "k = int n * p"
  have k0: "0 \<le> k" using assms(1) by (simp add: k_def)
  have k53: "k < 2 ^ 53" using assms(2) by (simp add: k_def)
  have prod: "real n * real_of_int p = real_of_int k" by (simp add: k_def)
  have times: "number_times (Num False (of_nat n)) (Num False (of_int p)) = Num False (of_int k)"
    using round_magnitude_int [OF k0 k53] by (simp add: to_number_def prod)
  show ?thesis
  proof (cases "k = 0")
    case True
    then show ?thesis
      unfolding times k_def [symmetric] by (simp add: to_number_def round_magnitude_def)
  next
    case False
    with k0 have "0 < k" by simp
    from round_magnitude_hundredth [OF this k53] obtain y
      where y: "round_magnitude (real_of_int k / 100) = Some y" "\<lceil>y\<rceil> = \<lceil>real_of_int k / 100\<rceil>"
      by blast
    then show ?thesis
      unfolding times k_def [symmetric] by (simp add: to_number_def)
  qed
qed

lemma threshold_no_nodes:
  "Math_ceil (number_divide (number_times (Num False (of_nat 0)) (Num s m)) (Num False 100))
     = Num s 0"
  by (simp add: to_number_def round_magnitude_def)

text \<open>The ceiling of a hundredth, in integer terms.\<close>

lemma ceiling_percent_bounds:
  fixes m :: int
  shows "m \<le> 100 * \<lceil>real_of_int m / 100\<rceil> \<and> 100 * (\<lceil>real_of_int m / 100\<rceil> - 1) < m"
proof -
  let ?t = "\<lceil>real_of_int m / 100\<rceil>"
  have "real_of_int m \<le> 100 * real_of_int ?t"
    using le_of_int_ceiling [of "real_of_int m / 100"] by linarith
  then have "real_of_int m \<le> real_of_int (100 * ?t)" by simp
  then have up: "m \<le> 100 * ?t" by (simp only: of_int_le_iff)
  have "real_of_int ?t - 1 < real_of_int m / 100"
    by (rule ceiling_correct [of "real_of_int m / 100", THEN conjunct1])
  then have "(real_of_int ?t - 1) * 100 < real_of_int m"
    by (simp only: pos_less_divide_eq [of 100, symmetric] zero_less_numeral)
  then have "real_of_int (100 * (?t - 1)) < real_of_int m" by (simp add: algebra_simps)
  then have "100 * (?t - 1) < m" by (simp only: of_int_less_iff)
  with up show ?thesis by simp
qed

lemma double_limit: "(2::real) ^ 53 \<le> 2 ^ 1024"
  by (rule power_increasing) simp_all

subsection \<open>The threshold, the mirror node, the sources of data and repeated calls\<close>

text \<open>
  C5. When the store holds the threshold percentage and the nodes resolve to a list of
  \<open>n\<close> elements: for every integer percentage \<open>p\<close> that is not negative and has
  \<open>n * p\<close> below \<open>2 ^ 53\<close>, which every integer from 0 to 100 has for every array,
  \<^verbatim>\<open>getThreshold\<close> resolves with the ceiling of \<open>n * p / 100\<close>, the least integer
  \<open>t\<close> with \<open>n * p \<le> 100 * t\<close>; so with 7 for ten nodes and 67 percent and with 4 for
  four nodes and 100 percent. With no nodes and any finite percentage it resolves with
  zero, of the sign of the percentage.
\<close>

theorem getThreshold_ceiling:
  assumes "configService ''clusterConfig.threshold'' = Some thresholdValue"
    and "getNodes this httpService w = (Inr ns, w')"
  shows "(\<forall>p. thresholdValue = Num False (of_int p) \<and> 0 \<le> p \<and> int (length ns) * p < 2 ^ 53 \<longrightarrow>
            (\<exists>t. getThreshold configService this httpService w = (Inr (Num False (of_int t)), w') \<and>
               t = \<lceil>real_of_int (int (length ns) * p) / 100\<rceil> \<and>
               int (length ns) * p \<le> 100 * t \<and> 100 * (t - 1) < int (length ns) * p)) \<and>
         (length ns = 10 \<and> thresholdValue = Num False 67 \<longrightarrow>
            getThreshold configService this httpService w = (Inr (Num False 7), w')) \<and>
         (length ns = 4 \<and> thresholdValue = Num False 100 \<longrightarrow>
            getThreshold configService this httpService w = (Inr (Num False 4), w')) \<and>
         (\<forall>s m. length ns = 0 \<and> thresholdValue = Num s m \<longrightarrow>
            getThreshold configService this httpService w = (Inr (Num s 0), w'))"
proof -
  have run: "getThreshold configService this httpService w =
      (Inr (Math_ceil (number_divide (number_times (Num False (of_nat (length ns))) thresholdValue)
              (Num False 100))), w')"
    using assms by (simp add: getThreshold_def getOrThrow_def)
  have general: "getThreshold configService this httpService w =
      (Inr (Num False (of_int \<lceil>real_of_int (int (length ns) * p) / 100\<rceil>)), w')"
    if "thresholdValue = Num False (of_int p)" and "0 \<le> p" and "int (length ns) * p < 2 ^ 53"
    for p
    using that threshold_int [of p "length ns"] by (simp add: run)
  have first: "\<forall>p. thresholdValue = Num False (of_int p) \<and> 0 \<le> p \<and> int (length ns) * p < 2 ^ 53 \<longrightarrow>
            (\<exists>t. getThreshold configService this httpService w = (Inr (Num False (of_int t)), w') \<and>
               t = \<lceil>real_of_int (int (length ns) * p) / 100\<rceil> \<and>
               int (length ns) * p \<le> 100 * t \<and> 100 * (t - 1) < int (length ns) * p)"
    using general ceiling_percent_bounds by blast
  have ten: "getThreshold configService this httpService w = (Inr (Num False 7), w')"
    if "length ns = 10" and "thresholdValue = Num False 67"
    using general [of 67] that by simp
  have four: "getThreshold configService this httpService w = (Inr (Num False 4), w')"
    if "length ns = 4" and "thresholdValue = Num False 100"
    using general [of 100] that by simp
  have none: "getThreshold configService this httpService w = (Inr (Num s 0), w')"
    if "length ns = 0" and "thresholdValue = Num s m" for s m
    using that threshold_no_nodes [of s m] by (simp add: run)
  from first ten four none show ?thesis by blast
qed

theorem getThreshold_ceiling_witness:
  "getThreshold [''clusterConfig.threshold'' \<mapsto> Num False 67]
      (sample_options ''mainnet'' ''private'' ''mainnet''
         (Some \<lparr>testnet = None, local = None,
                mainnet = Some \<lparr>nodes = [1, 2, 3, 4, 5, 6, 7, 8, 9, 10], utilities = [],
                                fees = 0\<rparr>\<rparr>) None)
      (sample_registry [] []) [] = (Inr (Num False 7), []) \<and>
   getThreshold [''clusterConfig.threshold'' \<mapsto> Num True 50]
      (sample_options ''testnet'' ''public'' ''testnet'' None (Some ''http://r''))
      (sample_registry ''http://r/network/nodes'' []) []
     = (Inr (Num True 0), [''http://r/network/nodes'']) \<and>
   getThreshold [''clusterConfig.threshold'' \<mapsto> Num False 100]
      (sample_options ''testnet'' ''public'' ''testnet'' None (Some ''http://r''))
      (sample_registry ''http://r/network/nodes'' [1, 2, 3, 4]) []
     = (Inr (Num False 4), [''http://r/network/nodes'']) \<and>
   getThreshold [''clusterConfig.threshold'' \<mapsto> Num False 33]
      (sample_options ''testnet'' ''public'' ''testnet'' None (Some ''http://r''))
      (sample_registry ''http://r/network/nodes'' [1, 2, 3, 4]) []
     = (Inr (Num False 2), [''http://r/network/nodes''])"
proof -
  let ?o1 = "sample_options ''mainnet'' ''private'' ''mainnet''
         (Some \<lparr>testnet = None, local = None,
                mainnet = Some \<lparr>nodes = [1, 2, 3, 4, 5, 6, 7, 8, 9, 10], utilities = [],
                                fees = 0\<rparr>\<rparr>) None"
  let ?o2 = "sample_options ''testnet'' ''public'' ''testnet'' None (Some ''http://r'')"
  have n1: "getNodes ?o1 (sample_registry [] []) [] = (Inr [1, 2, 3, 4, 5, 6, 7, 8, 9, 10], [])"
    by (simp add: getNodes_def getNetworkConfig_def member_def sample_options_def)
  have n2: "getNodes ?o2 (sample_registry ''http://r/network/nodes'' []) []
              = (Inr [], [''http://r/network/nodes''])"
    by (simp add: getNodes_def getNetworkConfig_def sample_options_def sample_registry_def
          httpService_get_def)
  have n3: "getNodes ?o2 (sample_registry ''http://r/network/nodes'' [1, 2, 3, 4]) []
              = (Inr [1, 2, 3, 4], [''http://r/network/nodes''])"
    by (simp add: getNodes_def getNetworkConfig_def sample_options_def sample_registry_def
          httpService_get_def)
  have c1: "[''clusterConfig.threshold'' \<mapsto> Num False 67] ''clusterConfig.threshold''
              = Some (Num False 67)"
    by simp
  have c2: "[''clusterConfig.threshold'' \<mapsto> Num True 50] ''clusterConfig.threshold''
              = Some (Num True 50)"
    by simp
  have c3: "[''clusterConfig.threshold'' \<mapsto> Num False 100] ''clusterConfig.threshold''
              = Some (Num False 100)"
    by simp
  have c4: "[''clusterConfig.threshold'' \<mapsto> Num False 33] ''clusterConfig.threshold''
              = Some (Num False 33)"
    by simp
  have i4: "Num False 33 = Num False (real_of_int 33) \<and> (0::int) \<le> 33 \<and>
              int (length [1, 2, 3, 4 :: nat]) * 33 < 2 ^ 53"
    by simp
  note a = getThreshold_ceiling
      [where configService = "[''clusterConfig.threshold'' \<mapsto> Num False 67]"
         and thresholdValue = "Num False 67", OF c1 n1]
  note b = getThreshold_ceiling
      [where configService = "[''clusterConfig.threshold'' \<mapsto> Num True 50]"
         and thresholdValue = "Num True 50", OF c2 n2]
  note c = getThreshold_ceiling
      [where configService = "[''clusterConfig.threshold'' \<mapsto> Num False 100]"
         and thresholdValue = "Num False 100", OF c3 n3]
  note d = getThreshold_ceiling
      [where configService = "[''clusterConfig.threshold'' \<mapsto> Num False 33]"
         and thresholdValue = "Num False 33", OF c4 n3, THEN conjunct1, rule_format, OF i4]
  have e: "\<lceil>real_of_int (int (length [1, 2, 3, 4 :: nat]) * 33) / 100\<rceil> = 2" by simp
  show ?thesis using a b c d e by auto
qed

text \<open>
  The formula fails beyond these bounds. For three nodes and the percentage
  6666666666666667 the product is rounded and the result is 200000000000000, one below
  the ceiling of the exact quotient. For 125 nodes and the number that the literal
  \<^verbatim>\<open>0.8\<close> denotes the result is 1, and the ceiling of the exact quotient is 2. For
  the percentage NaN the result is NaN, also with no nodes.
\<close>

theorem getThreshold_ceiling_counterexample:
  "(to_number False 6666666666666667 = Num False 6666666666666667 \<and>
    getThreshold [''clusterConfig.threshold'' \<mapsto> Num False 6666666666666667]
       (sample_options ''mainnet'' ''private'' ''mainnet'' (Some sample_table) None)
       (sample_registry [] []) []
      = (Inr (Num False 200000000000000), []) \<and>
    \<lceil>real_of_int (int (length [4, 5, 6 :: nat]) * 6666666666666667) / 100\<rceil>
      = 200000000000001) \<and>
   (to_number False (8 / 10) = Num False (3602879701896397 / 4503599627370496) \<and>
    getThreshold [''clusterConfig.threshold'' \<mapsto> Num False (3602879701896397 / 4503599627370496)]
       (sample_options ''testnet'' ''public'' ''testnet'' None (Some ''http://r''))
       (sample_registry ''http://r/network/nodes'' (replicate 125 (0::nat))) []
      = (Inr (Num False 1), [''http://r/network/nodes'']) \<and>
    \<lceil>real (length (replicate 125 (0::nat))) * (3602879701896397 / 4503599627370496) / 100\<rceil>
      = 2) \<and>
   getThreshold [''clusterConfig.threshold'' \<mapsto> NaN]
      (sample_options ''testnet'' ''public'' ''testnet'' None (Some ''http://r''))
      (sample_registry ''http://r/network/nodes'' ([] :: nat list)) []
     = (Inr NaN, [''http://r/network/nodes''])"
proof -
  have p1: "round_magnitude 6666666666666667 = Some 6666666666666667"
    using round_magnitude_int [of 6666666666666667] by simp
  have r1: "round_magnitude 20000000000000001 = Some 20000000000000000"
  proof (rule round_magnitude_at [where e = 54 and q = 2 and r = 5000000000000000])
    show "(20000000000000000::real) < 2 ^ 1024" using double_limit by simp
  qed (simp_all add: round_half_even_def)
  have r2: "round_magnitude 200000000000000 = Some 200000000000000"
    using round_magnitude_int [of 200000000000000] by simp
  have n1: "getNodes (sample_options ''mainnet'' ''private'' ''mainnet'' (Some sample_table) None)
              (sample_registry [] []) [] = (Inr [4, 5, 6], [])"
    by (simp add: getNodes_def getNetworkConfig_def member_def sample_options_def
          sample_table_def)
  have big: "getThreshold [''clusterConfig.threshold'' \<mapsto> Num False 6666666666666667]
       (sample_options ''mainnet'' ''private'' ''mainnet'' (Some sample_table) None)
       (sample_registry [] []) []
      = (Inr (Num False 200000000000000), [])"
    by (simp add: getThreshold_def getOrThrow_def n1 to_number_def r1 r2)
  have p2: "round_magnitude (8 / 10) = Some (3602879701896397 / 4503599627370496)"
  proof (rule round_magnitude_at [where e = "- 1" and q = "- 53" and r = 7205759403792794])
    have "(3602879701896397 / 4503599627370496 :: real) < 2 ^ 53" by simp
    with double_limit show "(3602879701896397 / 4503599627370496 :: real) < 2 ^ 1024"
      by linarith
  qed (simp_all add: round_half_even_def)
  have r3: "round_magnitude (125 * (3602879701896397 / 4503599627370496)) = Some 100"
  proof (rule round_magnitude_at [where e = 6 and q = "- 46" and r = 7036874417766400])
    show "(100::real) < 2 ^ 1024" using double_limit by simp
  qed (simp_all add: round_half_even_def)
  have r4: "round_magnitude 1 = Some 1"
    using round_magnitude_int [of 1] by simp
  have n2: "getNodes (sample_options ''testnet'' ''public'' ''testnet'' None (Some ''http://r''))
              (sample_registry ''http://r/network/nodes'' xs) []
             = (Inr xs, [''http://r/network/nodes''])" for xs :: "nat list"
    by (simp add: getNodes_def getNetworkConfig_def sample_options_def sample_registry_def
          httpService_get_def)
  have frac: "getThreshold [''clusterConfig.threshold'' \<mapsto> Num False (3602879701896397 / 4503599627370496)]
       (sample_options ''testnet'' ''public'' ''testnet'' None (Some ''http://r''))
       (sample_registry ''http://r/network/nodes'' (replicate 125 (0::nat))) []
      = (Inr (Num False 1), [''http://r/network/nodes''])"
    using r3 r4 by (simp add: getThreshold_def getOrThrow_def n2 to_number_def)
  have nan: "getThreshold [''clusterConfig.threshold'' \<mapsto> NaN]
      (sample_options ''testnet'' ''public'' ''testnet'' None (Some ''http://r''))
      (sample_registry ''http://r/network/nodes'' ([] :: nat list)) []
     = (Inr NaN, [''http://r/network/nodes''])"
    by (simp add: getThreshold_def getOrThrow_def n2)
  have c1: "\<lceil>real_of_int (int (length [4, 5, 6 :: nat]) * 6666666666666667) / 100\<rceil>
      = (200000000000001 :: int)"
    by simp
  have c2: "\<lceil>real (length (replicate 125 (0::nat))) * (3602879701896397 / 4503599627370496) / 100\<rceil>
      = (2 :: int)"
    by simp
  from p1 p2 have "to_number False 6666666666666667 = Num False 6666666666666667"
    and "to_number False (8 / 10) = Num False (3602879701896397 / 4503599627370496)"
    by (simp_all add: to_number_def)
  with big frac nan c1 c2 show ?thesis by blast
qed

text \<open>
  C6. \<^verbatim>\<open>getMirrorNode\<close> never fails, whatever the state of the configuration store:
  without the key \<open>mirrorNode\<close> it returns the record whose \<open>url\<close>, \<open>apiKey\<close> and
  \<open>grpc\<close> are all null, and with the key it returns the stored value unchanged.
\<close>

theorem getMirrorNode_never_fails:
  "(\<exists>m. getMirrorNode configService = Inr m) \<and>
   (configService ''mirrorNode'' = None \<longrightarrow>
      getMirrorNode configService = Inr \<lparr>url = None, apiKey = None, grpc = None\<rparr>) \<and>
   (\<forall>m. configService ''mirrorNode'' = Some m \<longrightarrow> getMirrorNode configService = Inr m)"
  by (cases "configService ''mirrorNode''") (simp_all add: getMirrorNode_def getOrThrow_def)

theorem getMirrorNode_never_fails_witness:
  "getMirrorNode Map.empty = Inr \<lparr>url = None, apiKey = None, grpc = None\<rparr> \<and>
   getMirrorNode [''mirrorNode'' \<mapsto> \<lparr>url = Some ''https://mirror'', apiKey = None,
                                      grpc = Some ''mirror:443''\<rparr>]
     = Inr \<lparr>url = Some ''https://mirror'', apiKey = None, grpc = Some ''mirror:443''\<rparr>"
  using getMirrorNode_never_fails [of Map.empty]
        getMirrorNode_never_fails
          [of "[''mirrorNode'' \<mapsto> \<lparr>url = Some ''https://mirror'', apiKey = None,
                                      grpc = Some ''mirror:443''\<rparr>]"]
  by simp

text \<open>
  What each accessor does, by the outcome of \<^verbatim>\<open>getNetworkConfig\<close> and the registry URL.
\<close>

lemma getNodes_cases:
  "getNodes this h w =
     (case getNetworkConfig this of
        Inl e \<Rightarrow> (Inl e, w)
      | Inr (Some c) \<Rightarrow> (Inr (nodes c), w)
      | Inr None \<Rightarrow>
          (case smartRegistryUrl this of
             None \<Rightarrow> (Inl (Error ''Base URL not set''), w)
           | Some u \<Rightarrow>
               if u = ''local'' then (Inl (Error ''Base URL not set''), w)
               else ((case h (u @ ''/network/nodes'') of Inl e \<Rightarrow> Inl e | Inr r \<Rightarrow> Inr (data r)),
                     w @ [u @ ''/network/nodes''])))"
  by (simp add: getNodes_def httpService_get_def split: sum.splits option.splits)

lemma getUtilities_cases:
  "getUtilities this h w =
     (case getNetworkConfig this of
        Inl e \<Rightarrow> (Inl e, w)
      | Inr (Some c) \<Rightarrow> (Inr (utilities c), w)
      | Inr None \<Rightarrow>
          (case smartRegistryUrl this of
             None \<Rightarrow> (Inl (Error ''Base URL not set''), w)
           | Some u \<Rightarrow>
               if u = ''local'' then (Inl (Error ''Base URL not set''), w)
               else ((case h (u @ ''/network/utilities'') of Inl e \<Rightarrow> Inl e | Inr r \<Rightarrow> Inr (data r)),
                     w @ [u @ ''/network/utilities''])))"
  by (simp add: getUtilities_def httpService_get_def split: sum.splits option.splits)

lemma getFees_cases:
  "getFees this h w =
     (case getNetworkConfig this of
        Inl e \<Rightarrow> (Inl e, w)
      | Inr (Some c) \<Rightarrow> (Inr (fees c), w)
      | Inr None \<Rightarrow>
          (case smartRegistryUrl this of
             None \<Rightarrow> (Inl (Error ''Base URL not set''), w)
           | Some u \<Rightarrow>
               if u = ''local'' then (Inl (Error ''Base URL not set''), w)
               else ((case h (u @ ''/network/fees'') of Inl e \<Rightarrow> Inl e | Inr r \<Rightarrow> Inr (data r)),
                     w @ [u @ ''/network/fees''])))"
  by (simp add: getFees_def httpService_get_def split: sum.splits option.splits)

text \<open>The three parts of the single-source property, for one accessor.\<close>

lemma one_source_by_cases:
  fixes run :: "(error + 'v) \<times> world" and conf :: "error + 'c option"
  assumes run: "run =
     (case conf of
        Inl e \<Rightarrow> (Inl e, w)
      | Inr (Some c) \<Rightarrow> (Inr (sel c), w)
      | Inr None \<Rightarrow>
          (case reg of
             None \<Rightarrow> (Inl (Error ''Base URL not set''), w)
           | Some u \<Rightarrow>
               if u = ''local'' then (Inl (Error ''Base URL not set''), w)
               else ((case h (u @ path) of Inl e \<Rightarrow> Inl e | Inr r \<Rightarrow> Inr (data r)),
                     w @ [u @ path])))"
  shows "(\<forall>c. conf = Inr (Some c) \<longrightarrow> run = (Inr (sel c), w)) \<and>
         (snd run \<noteq> w \<longrightarrow>
            conf = Inr None \<and>
            (\<exists>u. reg = Some u \<and>
               run = ((case h (u @ path) of Inl e \<Rightarrow> Inl e | Inr r \<Rightarrow> Inr (data r)),
                      w @ [u @ path]))) \<and>
         (\<forall>v. fst run = Inr v \<longrightarrow>
            ((\<exists>c. conf = Inr (Some c) \<and> v = sel c \<and> snd run = w) \<noteq>
             (\<exists>u r. conf = Inr None \<and> reg = Some u \<and> h (u @ path) = Inr r \<and>
                    v = data r \<and> snd run = w @ [u @ path])))"
proof (cases conf)
  case (Inl e)
  with run show ?thesis by simp
next
  case (Inr oc)
  show ?thesis
  proof (cases oc)
    case (Some c)
    with Inr run show ?thesis by simp
  next
    case None
    show ?thesis
    proof (cases reg)
      case rn: None
      with None Inr run show ?thesis by simp
    next
      case rs: (Some u)
      show ?thesis
      proof (cases "u = ''local''")
        case True
        with rs None Inr run show ?thesis by simp
      next
        case False
        with rs None Inr run show ?thesis by (cases "h (u @ path)") simp_all
      qed
    qed
  qed
qed

text \<open>
  C7. Each of \<^verbatim>\<open>getNodes\<close>, \<^verbatim>\<open>getUtilities\<close> and \<^verbatim>\<open>getFees\<close> takes its value
  from one source only. A call that resolves a local network configuration returns the
  field of that configuration and issues no request. A call that issues a request has
  resolved no local configuration, and its outcome is the outcome of that one GET. A
  call that returns a value satisfies exactly one of the two descriptions: the value is
  the local field and the world is unchanged, or the value is the body of the response
  and the world has the one request more.
\<close>

theorem single_source:
  "((\<forall>c. getNetworkConfig this = Inr (Some c) \<longrightarrow> getNodes this hn w = (Inr (nodes c), w)) \<and>
    (snd (getNodes this hn w) \<noteq> w \<longrightarrow>
       getNetworkConfig this = Inr None \<and>
       (\<exists>u. smartRegistryUrl this = Some u \<and>
          getNodes this hn w =
            ((case hn (u @ ''/network/nodes'') of Inl e \<Rightarrow> Inl e | Inr r \<Rightarrow> Inr (data r)),
             w @ [u @ ''/network/nodes'']))) \<and>
    (\<forall>v. fst (getNodes this hn w) = Inr v \<longrightarrow>
       ((\<exists>c. getNetworkConfig this = Inr (Some c) \<and> v = nodes c \<and>
             snd (getNodes this hn w) = w) \<noteq>
        (\<exists>u r. getNetworkConfig this = Inr None \<and> smartRegistryUrl this = Some u \<and>
             hn (u @ ''/network/nodes'') = Inr r \<and> v = data r \<and>
             snd (getNodes this hn w) = w @ [u @ ''/network/nodes''])))) \<and>
   ((\<forall>c. getNetworkConfig this = Inr (Some c) \<longrightarrow>
       getUtilities this hu w = (Inr (utilities c), w)) \<and>
    (snd (getUtilities this hu w) \<noteq> w \<longrightarrow>
       getNetworkConfig this = Inr None \<and>
       (\<exists>u. smartRegistryUrl this = Some u \<and>
          getUtilities this hu w =
            ((case hu (u @ ''/network/utilities'') of Inl e \<Rightarrow> Inl e | Inr r \<Rightarrow> Inr (data r)),
             w @ [u @ ''/network/utilities'']))) \<and>
    (\<forall>v. fst (getUtilities this hu w) = Inr v \<longrightarrow>
       ((\<exists>c. getNetworkConfig this = Inr (Some c) \<and> v = utilities c \<and>
             snd (getUtilities this hu w) = w) \<noteq>
        (\<exists>u r. getNetworkConfig this = Inr None \<and> smartRegistryUrl this = Some u \<and>
             hu (u @ ''/network/utilities'') = Inr r \<and> v = data r \<and>
             snd (getUtilities this hu w) = w @ [u @ ''/network/utilities''])))) \<and>
   ((\<forall>c. getNetworkConfig this = Inr (Some c) \<longrightarrow> getFees this hf w = (Inr (fees c), w)) \<and>
    (snd (getFees this hf w) \<noteq> w \<longrightarrow>
       getNetworkConfig this = Inr None \<and>
       (\<exists>u. smartRegistryUrl this = Some u \<and>
          getFees this hf w =
            ((case hf (u @ ''/network/fees'') of Inl e \<Rightarrow> Inl e | Inr r \<Rightarrow> Inr (data r)),
             w @ [u @ ''/network/fees'']))) \<and>
    (\<forall>v. fst (getFees this hf w) = Inr v \<longrightarrow>
       ((\<exists>c. getNetworkConfig this = Inr (Some c) \<and> v = fees c \<and>
             snd (getFees this hf w) = w) \<noteq>
        (\<exists>u r. getNetworkConfig this = Inr None \<and> smartRegistryUrl this = Some u \<and>
             hf (u @ ''/network/fees'') = Inr r \<and> v = data r \<and>
             snd (getFees this hf w) = w @ [u @ ''/network/fees'']))))"
  by (intro conjI one_source_by_cases [OF getNodes_cases]
        one_source_by_cases [OF getUtilities_cases] one_source_by_cases [OF getFees_cases])

theorem single_source_witness:
  "getNodes (sample_options ''mainnet'' ''private'' ''mainnet'' (Some sample_table)
       (Some ''http://r'')) (sample_registry ''http://r/network/nodes'' [7, 8]) []
     = (Inr [4, 5, 6], []) \<and>
   getNodes (sample_options ''mainnet'' ''public'' ''mainnet'' (Some sample_table)
       (Some ''http://r'')) (sample_registry ''http://r/network/nodes'' [7, 8]) []
     = (Inr [7, 8], [''http://r/network/nodes'']) \<and>
   getUtilities (sample_options ''mainnet'' ''private'' ''mainnet'' (Some sample_table)
       (Some ''http://r'')) (sample_registry ''http://r/network/utilities'' [''u'']) []
     = (Inr [''ipfs'', ''mirror''], []) \<and>
   getUtilities (sample_options ''mainnet'' ''public'' ''mainnet'' (Some sample_table)
       (Some ''http://r'')) (sample_registry ''http://r/network/utilities'' [''u'']) []
     = (Inr [''u''], [''http://r/network/utilities'']) \<and>
   getFees (sample_options ''mainnet'' ''private'' ''mainnet'' (Some sample_table)
       (Some ''http://r'')) (sample_registry ''http://r/network/fees'' 1) []
     = (Inr 30, []) \<and>
   getFees (sample_options ''mainnet'' ''public'' ''mainnet'' (Some sample_table)
       (Some ''http://r'')) (sample_registry ''http://r/network/fees'' 1) []
     = (Inr 1, [''http://r/network/fees''])"
  using single_source
          [of "sample_options ''mainnet'' ''private'' ''mainnet'' (Some sample_table)
                 (Some ''http://r'')"
              "sample_registry ''http://r/network/nodes'' [7, 8]" "[]"
              "sample_registry ''http://r/network/utilities'' [''u'']"
              "sample_registry ''http://r/network/fees'' 1"]
        single_source
          [of "sample_options ''mainnet'' ''public'' ''mainnet'' (Some sample_table)
                 (Some ''http://r'')"
              "sample_registry ''http://r/network/nodes'' [7, 8]" "[]"
              "sample_registry ''http://r/network/utilities'' [''u'']"
              "sample_registry ''http://r/network/fees'' 1"]
  by (simp add: getNodes_cases getUtilities_cases getFees_cases getNetworkConfig_def
        member_def sample_options_def sample_table_def sample_registry_def)










text \<open>
  C9. With a private network, under testnet or mainnet, and no custom network table in
  the options, \<^verbatim>\<open>getNetworkConfig\<close> fails on the access to the missing table, and
  \<^verbatim>\<open>getNodes\<close>, \<^verbatim>\<open>getUtilities\<close> and \<^verbatim>\<open>getFees\<close> reject with that error
  without a request to the registry, whatever the registry URL is.
\<close>

theorem missing_table_rejects:
  assumes "network this = ''private''"
    and "environment this = ''testnet'' \<or> environment this = ''mainnet''"
    and "customNetwork this = None"
  shows "\<exists>p. getNetworkConfig this = Inl (TypeError p) \<and>
           getNodes this hn w = (Inl (TypeError p), w) \<and>
           getUtilities this hu w = (Inl (TypeError p), w) \<and>
           getFees this hf w = (Inl (TypeError p), w)"
proof -
  from assms have "getNetworkConfig this =
      Inl (TypeError (if environment this = ''testnet''
                      then if client_environment this = ''testnet'' then ''testnet'' else ''local''
                      else ''mainnet''))"
    by (auto simp add: getNetworkConfig_def member_def)
  then show ?thesis by (simp add: getNodes_cases getUtilities_cases getFees_cases)
qed

theorem missing_table_rejects_witness:
  "getNodes (sample_options ''testnet'' ''private'' ''testnet'' None (Some ''http://r''))
      (sample_registry ''http://r/network/nodes'' [7, 8]) [] = (Inl (TypeError ''testnet''), []) \<and>
   getUtilities (sample_options ''testnet'' ''private'' ''local'' None (Some ''http://r''))
      (sample_registry ''http://r/network/utilities'' [''u'']) []
     = (Inl (TypeError ''local''), []) \<and>
   getFees (sample_options ''mainnet'' ''private'' ''mainnet'' None (Some ''http://r''))
      (sample_registry ''http://r/network/fees'' 1) [] = (Inl (TypeError ''mainnet''), [])"
  using missing_table_rejects
          [of "sample_options ''testnet'' ''private'' ''testnet'' None (Some ''http://r'')"
              "sample_registry ''http://r/network/nodes'' [7, 8]" "[]"
              "sample_registry ''http://r/network/utilities'' [''u'']"
              "sample_registry ''http://r/network/fees'' 1"]
        missing_table_rejects
          [of "sample_options ''testnet'' ''private'' ''local'' None (Some ''http://r'')"
              "sample_registry ''http://r/network/nodes'' [7, 8]" "[]"
              "sample_registry ''http://r/network/utilities'' [''u'']"
              "sample_registry ''http://r/network/fees'' 1"]
        missing_table_rejects
          [of "sample_options ''mainnet'' ''private'' ''mainnet'' None (Some ''http://r'')"
              "sample_registry ''http://r/network/nodes'' [7, 8]" "[]"
              "sample_registry ''http://r/network/utilities'' [''u'']"
              "sample_registry ''http://r/network/fees'' 1"]
  by (auto simp add: sample_options_def getNetworkConfig_def member_def)

text \<open>
  C10. The test that chooses between local and remote data looks at the resolved entry.
  When the table is present and the entry that the decision table selects is absent,
  the resolved network configuration is absent, and the accessors behave as on the
  remote path: the error \<open>Base URL not set\<close> when the registry URL is unset or
  \<open>local\<close>, and otherwise the outcome of the one GET to the registry.
\<close>

theorem absent_entry_falls_through:
  assumes "customNetwork this = Some cn"
    and "(environment this = ''testnet'' \<and> network this = ''private'' \<and>
          client_environment this = ''testnet'' \<and> testnet cn = None) \<or>
         (environment this = ''testnet'' \<and> network this = ''private'' \<and>
          client_environment this \<noteq> ''testnet'' \<and> local cn = None) \<or>
         (environment this = ''mainnet'' \<and> network this = ''private'' \<and> mainnet cn = None)"
  shows "getNetworkConfig this = Inr None \<and>
         (smartRegistryUrl this = None \<or> smartRegistryUrl this = Some ''local'' \<longrightarrow>
            getNodes this hn w = (Inl (Error ''Base URL not set''), w) \<and>
            getUtilities this hu w = (Inl (Error ''Base URL not set''), w) \<and>
            getFees this hf w = (Inl (Error ''Base URL not set''), w)) \<and>
         (\<forall>u. smartRegistryUrl this = Some u \<and> u \<noteq> ''local'' \<longrightarrow>
            getNodes this hn w =
              ((case hn (u @ ''/network/nodes'') of Inl e \<Rightarrow> Inl e | Inr r \<Rightarrow> Inr (data r)),
               w @ [u @ ''/network/nodes'']) \<and>
            getUtilities this hu w =
              ((case hu (u @ ''/network/utilities'') of Inl e \<Rightarrow> Inl e | Inr r \<Rightarrow> Inr (data r)),
               w @ [u @ ''/network/utilities'']) \<and>
            getFees this hf w =
              ((case hf (u @ ''/network/fees'') of Inl e \<Rightarrow> Inl e | Inr r \<Rightarrow> Inr (data r)),
               w @ [u @ ''/network/fees'']))"
proof -
  from assms have absent: "getNetworkConfig this = Inr None"
    by (auto simp add: getNetworkConfig_def member_def)
  then show ?thesis
    by (auto simp add: getNodes_cases getUtilities_cases getFees_cases)
qed

theorem absent_entry_falls_through_witness:
  "getNodes (sample_options ''testnet'' ''private'' ''testnet''
       (Some (sample_table\<lparr>testnet := None\<rparr>)) (Some ''http://r''))
      (sample_registry ''http://r/network/nodes'' [7, 8]) []
     = (Inr [7, 8], [''http://r/network/nodes'']) \<and>
   getUtilities (sample_options ''testnet'' ''private'' ''mainnet''
       (Some (sample_table\<lparr>local := None\<rparr>)) (Some ''local''))
      (sample_registry ''http://r/network/utilities'' [''u'']) []
     = (Inl (Error ''Base URL not set''), []) \<and>
   getFees (sample_options ''mainnet'' ''private'' ''mainnet''
       (Some (sample_table\<lparr>mainnet := None\<rparr>)) None)
      (sample_registry ''http://r/network/fees'' 1) []
     = (Inl (Error ''Base URL not set''), [])"
  using absent_entry_falls_through
          [of "sample_options ''testnet'' ''private'' ''testnet''
                 (Some (sample_table\<lparr>testnet := None\<rparr>)) (Some ''http://r'')"
              "sample_table\<lparr>testnet := None\<rparr>"
              "sample_registry ''http://r/network/nodes'' [7, 8]" "[]"
              "sample_registry ''http://r/network/utilities'' [''u'']"
              "sample_registry ''http://r/network/fees'' 1"]
        absent_entry_falls_through
          [of "sample_options ''testnet'' ''private'' ''mainnet''
                 (Some (sample_table\<lparr>local := None\<rparr>)) (Some ''local'')"
              "sample_table\<lparr>local := None\<rparr>"
              "sample_registry ''http://r/network/nodes'' [7, 8]" "[]"
              "sample_registry ''http://r/network/utilities'' [''u'']"
              "sample_registry ''http://r/network/fees'' 1"]
        absent_entry_falls_through
          [of "sample_options ''mainnet'' ''private'' ''mainnet''
                 (Some (sample_table\<lparr>mainnet := None\<rparr>)) None"
              "sample_table\<lparr>mainnet := None\<rparr>"
              "sample_registry ''http://r/network/nodes'' [7, 8]" "[]"
              "sample_registry ''http://r/network/utilities'' [''u'']"
              "sample_registry ''http://r/network/fees'' 1"]
  by (simp add: sample_options_def sample_table_def sample_registry_def)

end
